theory Spec2Isabelle
  imports Complex_Main "HOL-Library.Multiset" "HOL-Library.Sublist" "HOL-Library.AList"
begin

section \<open>Python values handled by the weather pipeline\<close>

text \<open>
  The batch script \<^verbatim>\<open>scripts/extrair_clima.py\<close> works on the value that
  \<^verbatim>\<open>response.json()\<close> returns: any JSON document decoded into Python values.
  \<open>JNull\<close> is Python's \<^verbatim>\<open>None\<close>. An object is an association list read
  with \<open>map_of\<close>; its keys are always strings. A float is carried around and never
  computed with, so it is kept as a real number. A text is a list of characters, one
  \<open>char\<close> for each character and not for each byte of an encoding: the model covers
  the characters with code points up to 255 (Latin-1), which include the accented letters
  of Portuguese.
\<close>

datatype json =
    JNull
  | JBool bool
  | JInt int
  | JFloat real
  | JStr string
  | JArr "json list"
  | JObj "(string \<times> json) list"

text \<open>
  The exceptions of the program: the three a subscript expression can raise, and
  \<^verbatim>\<open>psycopg2.Error\<close>, which only a call to the database driver raises. A
  \<^verbatim>\<open>KeyError\<close> carries the key that was looked up.
\<close>

datatype erro = KeyError json | IndexError | TypeError | Psycopg2Error

text \<open>How a Python function call ends: it returns a value or an exception leaves it.\<close>

datatype 'a resultado = Retorna 'a | Levanta erro

text \<open>Sequencing of expressions that may raise: the first exception wins.\<close>

definition entao :: "erro + 'a \<Rightarrow> ('a \<Rightarrow> erro + 'b) \<Rightarrow> erro + 'b" where
  "entao m f = (case m of Inl e \<Rightarrow> Inl e | Inr v \<Rightarrow> f v)"

text \<open>
  \<^verbatim>\<open>v[k]\<close> for a string key \<open>k\<close>. Only a dict accepts a string subscript; a
  list or a string raises \<^verbatim>\<open>TypeError\<close> (indices must be integers), and
  \<^verbatim>\<open>None\<close>, booleans and numbers are not subscriptable at all.
\<close>

fun item_chave :: "json \<Rightarrow> string \<Rightarrow> erro + json" where
  "item_chave (JObj kvs) k =
     (case map_of kvs k of Some v \<Rightarrow> Inr v | None \<Rightarrow> Inl (KeyError (JStr k)))"
| "item_chave _ k = Inl TypeError"

text \<open>
  \<^verbatim>\<open>v[0]\<close>. A list or a string gives its first element or raises
  \<^verbatim>\<open>IndexError\<close> when empty; a dict looks the integer \<open>0\<close> up as a key, which a
  decoded JSON object never has; everything else is not subscriptable.
\<close>

fun item_zero :: "json \<Rightarrow> erro + json" where
  "item_zero (JArr []) = Inl IndexError"
| "item_zero (JArr (x # xs)) = Inr x"
| "item_zero (JStr []) = Inl IndexError"
| "item_zero (JStr (c # cs)) = Inr (JStr [c])"
| "item_zero (JObj kvs) = Inl (KeyError (JInt 0))"
| "item_zero _ = Inl TypeError"

text \<open>Truth value of a Python object, as \<^verbatim>\<open>if x:\<close> tests it.\<close>

fun verdadeiro :: "json \<Rightarrow> bool" where
  "verdadeiro JNull = False"
| "verdadeiro (JBool b) = b"
| "verdadeiro (JInt n) = (n \<noteq> 0)"
| "verdadeiro (JFloat x) = (x \<noteq> 0)"
| "verdadeiro (JStr s) = (s \<noteq> [])"
| "verdadeiro (JArr xs) = (xs \<noteq> [])"
| "verdadeiro (JObj kvs) = (kvs \<noteq> [])"

section \<open>Standard output\<close>

text \<open>
  Each \<^verbatim>\<open>print\<close> of the script is one event; the event keeps the values the
  message is formatted from, not the formatted text.
\<close>

datatype msg =
    BuscandoDados string
  | ErroChaveAPI
  | ErroCidadeNaoEncontrada string
  | ErroHTTP nat
  | ErroRequisicao
  | ErroInesperado
  | ErroExtrair json
  | NenhumDado
  | ErroSalvar
  | SalvoComSucesso json
  | CabecalhoExtraidos
  | CampoExtraido string json
  | ConexaoEstabelecida
  | ErroConectar
  | ConexaoFechada

section \<open>The extractor\<close>

text \<open>
  The dict literal of \<^verbatim>\<open>extrair_info_interesse\<close>: ten subscript chains, evaluated
  top to bottom, the first exception ending the evaluation.
\<close>

definition info_extraida :: "json \<Rightarrow> erro + (string \<times> json) list" where
  "info_extraida d =
     entao (item_chave d ''name'') (\<lambda>cidade.
     entao (entao (item_chave d ''sys'') (\<lambda>s. item_chave s ''country'')) (\<lambda>pais.
     entao (entao (item_chave d ''main'') (\<lambda>m. item_chave m ''temp'')) (\<lambda>temperatura_c.
     entao (entao (item_chave d ''main'') (\<lambda>m. item_chave m ''feels_like'')) (\<lambda>sensacao_termica_c.
     entao (entao (item_chave d ''main'') (\<lambda>m. item_chave m ''temp_min'')) (\<lambda>temp_min_c.
     entao (entao (item_chave d ''main'') (\<lambda>m. item_chave m ''temp_max'')) (\<lambda>temp_max_c.
     entao (entao (item_chave d ''main'') (\<lambda>m. item_chave m ''humidity'')) (\<lambda>umidade_pct.
     entao (entao (entao (item_chave d ''weather'') item_zero)
                  (\<lambda>w. item_chave w ''description'')) (\<lambda>descricao.
     entao (entao (item_chave d ''wind'') (\<lambda>w. item_chave w ''speed'')) (\<lambda>velocidade_vento_ms.
     entao (item_chave d ''dt'') (\<lambda>timestamp_coleta.
     Inr [(''cidade'', cidade),
          (''pais'', pais),
          (''temperatura_c'', temperatura_c),
          (''sensacao_termica_c'', sensacao_termica_c),
          (''temp_min_c'', temp_min_c),
          (''temp_max_c'', temp_max_c),
          (''umidade_pct'', umidade_pct),
          (''descricao'', descricao),
          (''velocidade_vento_ms'', velocidade_vento_ms),
          (''timestamp_coleta'', timestamp_coleta)]))))))))))"

text \<open>
  \<^verbatim>\<open>extrair_info_interesse\<close>: \<^verbatim>\<open>None\<close> in, \<^verbatim>\<open>None\<close> out; a
  \<^verbatim>\<open>KeyError\<close> is caught, reported and turned into \<^verbatim>\<open>None\<close>; any other
  exception is not caught and leaves the function. The second component is what the call
  printed.
\<close>

definition extrair_info_interesse ::
  "json \<Rightarrow> (string \<times> json) list option resultado \<times> msg list" where
  "extrair_info_interesse dados_completos =
     (if dados_completos = JNull then (Retorna None, [])
      else case info_extraida dados_completos of
             Inr info \<Rightarrow> (Retorna (Some info), [])
           | Inl (KeyError k) \<Rightarrow> (Retorna None, [ErroExtrair k])
           | Inl e \<Rightarrow> (Levanta e, []))"

section \<open>The clima table and the database driver\<close>

text \<open>
  A stored row maps each column named by the \<^verbatim>\<open>INSERT\<close> to the value bound to
  it; \<open>data_insercao\<close> is not part of the \<^verbatim>\<open>INSERT\<close>: the database assigns
  it when the row is written. The table definition is not part of the sources, so the
  assigned value is a parameter of the write.
\<close>

record clima_row =
  campos :: "(string \<times> json) list"
  data_insercao :: int

text \<open>The calls made to psycopg2, in the order they are attempted.\<close>

datatype db_op =
    Conectar
  | AbrirCursor
  | ExecInsert "json list"
  | ExecSelectTodos
  | ExecSelectCidade string
  | Fetchall
  | Commit
  | Rollback
  | FecharCursor
  | FecharConexao

text \<open>
  Which driver calls raise \<^verbatim>\<open>psycopg2.Error\<close> in one invocation: a connection
  failure (\<open>connect\<close>) or a query failure (\<open>cursor\<close>, \<open>execute\<close>, \<open>commit\<close>,
  \<open>fetchall\<close>), and the \<open>rollback\<close> of the writer's handler, which raises when the
  connection is lost. No function retries a call, so each call is attempted at most once
  and one flag per call describes every run. \<open>close\<close> is taken not to raise.
\<close>

record falhas =
  falha_connect :: bool
  falha_cursor :: bool
  falha_execute :: bool
  falha_commit :: bool
  falha_fetchall :: bool
  falha_rollback :: bool

definition sem_falhas :: falhas where
  "sem_falhas = \<lparr>falha_connect = False, falha_cursor = False, falha_execute = False,
                  falha_commit = False, falha_fetchall = False, falha_rollback = False\<rparr>"

text \<open>
  The world an invocation runs in: the committed rows of \<^verbatim>\<open>clima\<close> in insertion
  order, the rows written by the open transaction and not yet committed, the number of
  database connections currently open, the trace of driver calls, and standard output.
\<close>

record mundo =
  tabela :: "clima_row list"
  pendente :: "clima_row list"
  abertas :: nat
  ops :: "db_op list"
  saida :: "msg list"

definition imprimir :: "msg \<Rightarrow> mundo \<Rightarrow> mundo" where
  "imprimir m w = w\<lparr>saida := saida w @ [m]\<rparr>"

definition imprimir_todas :: "msg list \<Rightarrow> mundo \<Rightarrow> mundo" where
  "imprimir_todas ms w = w\<lparr>saida := saida w @ ms\<rparr>"

text \<open>A driver call that raises: it is attempted and changes nothing else.\<close>

definition tentar :: "db_op \<Rightarrow> mundo \<Rightarrow> mundo" where
  "tentar opr w = w\<lparr>ops := ops w @ [opr]\<rparr>"

text \<open>A new connection starts with a transaction that has written nothing.\<close>

definition conectar :: "mundo \<Rightarrow> mundo" where
  "conectar w = w\<lparr>pendente := [], abertas := Suc (abertas w), ops := ops w @ [Conectar]\<rparr>"

definition abrir_cursor :: "mundo \<Rightarrow> mundo" where
  "abrir_cursor w = w\<lparr>ops := ops w @ [AbrirCursor]\<rparr>"

text \<open>
  \<^verbatim>\<open>INSERT INTO clima (c1, ..., c10) VALUES (%s, ..., %s)\<close> with the tuple
  \<open>vs\<close>: column \<open>i\<close> receives value \<open>i\<close>.
\<close>

definition exec_insert :: "string list \<Rightarrow> json list \<Rightarrow> int \<Rightarrow> mundo \<Rightarrow> mundo" where
  "exec_insert cols vs agora w =
     w\<lparr>pendente := pendente w @ [\<lparr>campos = zip cols vs, data_insercao = agora\<rparr>],
       ops := ops w @ [ExecInsert vs]\<rparr>"

definition commit :: "mundo \<Rightarrow> mundo" where
  "commit w = w\<lparr>tabela := tabela w @ pendente w, pendente := [], ops := ops w @ [Commit]\<rparr>"

definition rollback :: "mundo \<Rightarrow> mundo" where
  "rollback w = w\<lparr>pendente := [], ops := ops w @ [Rollback]\<rparr>"

definition fechar_cursor :: "mundo \<Rightarrow> mundo" where
  "fechar_cursor w = w\<lparr>ops := ops w @ [FecharCursor]\<rparr>"

text \<open>Closing a connection discards whatever its transaction had not committed.\<close>

definition fechar_conexao :: "mundo \<Rightarrow> mundo" where
  "fechar_conexao w = w\<lparr>pendente := [], abertas := abertas w - 1, ops := ops w @ [FecharConexao]\<rparr>"

section \<open>The writer\<close>

text \<open>Evaluating a tuple of expressions left to right; the first exception wins.\<close>

fun todos :: "(erro + 'a) list \<Rightarrow> erro + 'a list" where
  "todos [] = Inr []"
| "todos (m # ms) = entao m (\<lambda>v. entao (todos ms) (\<lambda>vs. Inr (v # vs)))"

text \<open>The column list of the \<^verbatim>\<open>INSERT\<close> statement, as the query text has it.\<close>

definition colunas :: "string list" where
  "colunas = [''cidade'', ''pais'', ''temperatura_c'', ''sensacao_termica_c'', ''temp_min_c'',
              ''temp_max_c'', ''umidade_pct'', ''descricao'', ''velocidade_vento_ms'',
              ''timestamp_coleta'']"

text \<open>The tuple \<^verbatim>\<open>valores\<close>: ten reads of the dict, in the order of the source.\<close>

definition valores :: "(string \<times> json) list \<Rightarrow> erro + json list" where
  "valores dados =
     todos [item_chave (JObj dados) ''cidade'', item_chave (JObj dados) ''pais'',
            item_chave (JObj dados) ''temperatura_c'',
            item_chave (JObj dados) ''sensacao_termica_c'',
            item_chave (JObj dados) ''temp_min_c'', item_chave (JObj dados) ''temp_max_c'',
            item_chave (JObj dados) ''umidade_pct'', item_chave (JObj dados) ''descricao'',
            item_chave (JObj dados) ''velocidade_vento_ms'',
            item_chave (JObj dados) ''timestamp_coleta'']"

text \<open>
  The \<^verbatim>\<open>except Error\<close> block of the writer, entered with \<open>conn\<close> set: it
  prints the error and calls \<^verbatim>\<open>conn.rollback()\<close>. Nothing protects that call, so
  when it raises, its exception replaces the one being handled.
\<close>

definition tratar_erro :: "falhas \<Rightarrow> mundo \<Rightarrow> unit resultado \<times> mundo" where
  "tratar_erro f w =
     (let w1 = imprimir ErroSalvar w in
      if falha_rollback f then (Levanta Psycopg2Error, tentar Rollback w1)
      else (Retorna (), rollback w1))"

text \<open>
  \<^verbatim>\<open>salvar_dados_no_bd\<close>. Each branch is one path through the
  \<^verbatim>\<open>try\<close>/\<^verbatim>\<open>except Error\<close>/\<^verbatim>\<open>finally\<close>: the handler prints and rolls
  back when \<open>conn\<close> is set, and the \<^verbatim>\<open>finally\<close> block closes the cursor and the
  connection when they are set. An exception that is not a \<^verbatim>\<open>psycopg2.Error\<close>
  skips the handler, and an exception raised inside the handler ends it; either way the
  \<^verbatim>\<open>finally\<close> block runs and the exception leaves the function.
\<close>

definition salvar_dados_no_bd ::
  "falhas \<Rightarrow> int \<Rightarrow> (string \<times> json) list option \<Rightarrow> mundo \<Rightarrow> unit resultado \<times> mundo" where
  "salvar_dados_no_bd f agora dados w =
     (case dados of
        None \<Rightarrow> (Retorna (), imprimir NenhumDado w)
      | Some d \<Rightarrow>
         (if falha_connect f then
            (Retorna (), imprimir ErroSalvar (tentar Conectar w))
          else (let w1 = conectar w in
           (if falha_cursor f then
              (case tratar_erro f (tentar AbrirCursor w1) of
                 (r, wh) \<Rightarrow> (r, fechar_conexao wh))
            else (let w2 = abrir_cursor w1 in
             (case valores d of
                Inl e \<Rightarrow> (Levanta e, fechar_conexao (fechar_cursor w2))
              | Inr vs \<Rightarrow>
                 (if falha_execute f then
                    (case tratar_erro f (tentar (ExecInsert vs) w2) of
                       (r, wh) \<Rightarrow> (r, fechar_conexao (fechar_cursor wh)))
                  else (let w3 = exec_insert colunas vs agora w2 in
                   (if falha_commit f then
                      (case tratar_erro f (tentar Commit w3) of
                         (r, wh) \<Rightarrow> (r, fechar_conexao (fechar_cursor wh)))
                    else (let w4 = commit w3 in
                     (case item_chave (JObj d) ''cidade'' of
                        Inl e \<Rightarrow> (Levanta e, fechar_conexao (fechar_cursor w4))
                      | Inr c \<Rightarrow>
                         (Retorna (),
                          fechar_conexao (fechar_cursor
                            (imprimir (SalvoComSucesso c) w4))))))))))))))"

section \<open>The fetcher and the batch run\<close>

text \<open>
  What the weather service does with the request: no usable answer at all
  (\<^verbatim>\<open>RequestException\<close>), some other exception, or a response with a status code
  and, when the body is JSON, its decoded value. A body that is not JSON makes
  \<^verbatim>\<open>response.json()\<close> raise; which of the last two handlers reports it depends
  on the version of the requests library, and the model takes the first. The
  configuration code at the top of the module, which stops the script when a credential
  is missing, runs before all of this and is not modelled.
\<close>

datatype resposta_http = SemResposta | FalhaInesperada | Resposta nat "json option"

definition buscar_dados_climaticos :: "string \<Rightarrow> resposta_http \<Rightarrow> mundo \<Rightarrow> json \<times> mundo" where
  "buscar_dados_climaticos cidade rede w =
     (let w0 = imprimir (BuscandoDados cidade) w in
      case rede of
        SemResposta \<Rightarrow> (JNull, imprimir ErroRequisicao w0)
      | FalhaInesperada \<Rightarrow> (JNull, imprimir ErroInesperado w0)
      | Resposta status corpo \<Rightarrow>
          if 400 \<le> status \<and> status < 600 then
            (JNull,
             imprimir (if status = 401 then ErroChaveAPI
                       else if status = 404 then ErroCidadeNaoEncontrada cidade
                       else ErroHTTP status) w0)
          else (case corpo of
                  None \<Rightarrow> (JNull, imprimir ErroRequisicao w0)
                | Some dados \<Rightarrow> (dados, w0)))"

definition cidade_para_buscar :: string where
  \<comment> \<open>The character with code 243 is the accented o of the city's name.\<close>
  "cidade_para_buscar = ''Florian'' @ [CHR 0xF3] @ ''polis''"

text \<open>
  The \<^verbatim>\<open>__main__\<close> block: one fetch cycle. Both \<^verbatim>\<open>if\<close> tests are truth
  tests, so an empty or null answer never reaches the extractor.
\<close>

definition execucao_principal ::
  "resposta_http \<Rightarrow> falhas \<Rightarrow> int \<Rightarrow> mundo \<Rightarrow> unit resultado \<times> mundo" where
  "execucao_principal rede f agora w =
     (case buscar_dados_climaticos cidade_para_buscar rede w of
        (dados_brutos, w1) \<Rightarrow>
          if verdadeiro dados_brutos then
            (case extrair_info_interesse dados_brutos of
               (Levanta e, ms) \<Rightarrow> (Levanta e, imprimir_todas ms w1)
             | (Retorna None, ms) \<Rightarrow> (Retorna (), imprimir_todas ms w1)
             | (Retorna (Some dados_filtrados), ms) \<Rightarrow>
                 if dados_filtrados \<noteq> [] then
                   salvar_dados_no_bd f agora (Some dados_filtrados)
                     (imprimir_todas
                        (ms @ CabecalhoExtraidos # map (\<lambda>(chave, valor). CampoExtraido chave valor)
                                                    dados_filtrados) w1)
                 else (Retorna (), imprimir_todas ms w1))
          else (Retorna (), w1))"

section \<open>The query service\<close>

subsection \<open>What the database does with the two queries\<close>

text \<open>
  \<^verbatim>\<open>ILIKE\<close> as PostgreSQL defines it: in the pattern \<open>%\<close> stands for any
  sequence of characters, \<open>_\<close> for any single character, and a backslash makes the
  character after it stand for itself; every other character stands for itself, and
  letters are compared without regard to case. A backslash at the very end of a pattern
  is an error in PostgreSQL; the endpoint's pattern always ends in \<open>%\<close>, and the model
  lets such a pattern match nothing. Case is folded as a database with a UTF-8 locale
  folds it on the characters of the model: the letters \<open>A\<close> to \<open>Z\<close> and the accented
  capital letters of Latin-1.
\<close>

definition minuscula :: "char \<Rightarrow> char" where
  \<comment> \<open>The codes 65 to 90 are \<open>A\<close> to \<open>Z\<close>, the codes 192 to 222 without 215 (the
      multiplication sign) are the accented capitals; the small letter of each is 32
      further, which for these codes is the same as setting bit 5.\<close>
  "minuscula c =
     (if ((65::nat) \<le> of_char c \<and> of_char c \<le> (90::nat)) \<or>
         ((192::nat) \<le> of_char c \<and> of_char c \<le> (222::nat) \<and> of_char c \<noteq> (215::nat))
      then Char (digit0 c) (digit1 c) (digit2 c) (digit3 c) (digit4 c) True (digit6 c) (digit7 c)
      else c)"

datatype simbolo = Qualquer | Um | Literal char | Invalido

fun simbolos :: "string \<Rightarrow> simbolo list" where
  "simbolos [] = []"
| "simbolos [c] =
     (if c = CHR 0x5C then [Invalido]
      else if c = CHR ''%'' then [Qualquer]
      else if c = CHR ''_'' then [Um]
      else [Literal c])"
| "simbolos (c # e # p) =
     (if c = CHR 0x5C then Literal e # simbolos p
      else if c = CHR ''%'' then Qualquer # simbolos (e # p)
      else if c = CHR ''_'' then Um # simbolos (e # p)
      else Literal c # simbolos (e # p))"

fun casa :: "simbolo list \<Rightarrow> string \<Rightarrow> bool" where
  "casa [] s = (s = [])"
| "casa (Qualquer # ps) [] = casa ps []"
| "casa (Qualquer # ps) (c # s) = (casa ps (c # s) \<or> casa (Qualquer # ps) s)"
| "casa (Um # ps) [] = False"
| "casa (Um # ps) (c # s) = casa ps s"
| "casa (Literal a # ps) [] = False"
| "casa (Literal a # ps) (c # s) = (minuscula a = minuscula c \<and> casa ps s)"
| "casa (Invalido # ps) s = False"

definition ilike :: "string \<Rightarrow> string \<Rightarrow> bool" where
  "ilike s padrao = casa (simbolos padrao) s"

text \<open>
  \<^verbatim>\<open>WHERE cidade ILIKE p\<close> on one row: a row whose \<open>cidade\<close> is not text does
  not satisfy the condition.
\<close>

definition cidade_ilike :: "string \<Rightarrow> clima_row \<Rightarrow> bool" where
  "cidade_ilike padrao r =
     (case map_of (campos r) ''cidade'' of Some (JStr s) \<Rightarrow> ilike s padrao | _ \<Rightarrow> False)"

text \<open>
  \<^verbatim>\<open>ORDER BY data_insercao DESC\<close>. SQL leaves the order of rows with equal keys
  open; the model fixes one such order, and no theorem below depends on which.
\<close>

definition ordenar_desc :: "clima_row list \<Rightarrow> clima_row list" where
  "ordenar_desc rs = rev (sort_key data_insercao rs)"

subsection \<open>The endpoints\<close>

text \<open>
  An endpoint function returns the rows, which FastAPI sends with status 200, or raises
  \<^verbatim>\<open>HTTPException\<close> with a status code.
\<close>

datatype resposta_api = Sucesso "clima_row list" | HTTPException nat

fun status_http :: "resposta_api \<Rightarrow> nat" where
  "status_http (Sucesso rs) = 200"
| "status_http (HTTPException st) = st"

text \<open>
  \<^verbatim>\<open>get_db_connection\<close>: the first component tells whether a connection was
  returned (\<open>False\<close> is \<^verbatim>\<open>None\<close>).
\<close>

definition get_db_connection :: "falhas \<Rightarrow> mundo \<Rightarrow> bool \<times> mundo" where
  "get_db_connection f w =
     (if falha_connect f then (False, imprimir ErroConectar (tentar Conectar w))
      else (True, imprimir ConexaoEstabelecida (conectar w)))"

text \<open>The \<^verbatim>\<open>finally\<close> block of both endpoints, entered with \<open>conn\<close> set.\<close>

definition finalizar :: "mundo \<Rightarrow> mundo" where
  "finalizar w = imprimir ConexaoFechada (fechar_conexao w)"

definition get_clima_todos :: "falhas \<Rightarrow> mundo \<Rightarrow> resposta_api \<times> mundo" where
  "get_clima_todos f w =
     (case get_db_connection f w of
        (False, w1) \<Rightarrow> (HTTPException 500, w1)
      | (True, w1) \<Rightarrow>
         (if falha_cursor f then (HTTPException 500, finalizar (tentar AbrirCursor w1))
          else (let w2 = abrir_cursor w1 in
           (if falha_execute f then (HTTPException 500, finalizar (tentar ExecSelectTodos w2))
            else (let w3 = tentar ExecSelectTodos w2 in
             (if falha_fetchall f then (HTTPException 500, finalizar (tentar Fetchall w3))
              else (let registros_clima = ordenar_desc (tabela w3) in
                (Sucesso registros_clima, finalizar (tentar Fetchall w3)))))))))"

text \<open>The query parameter \<^verbatim>\<open>f"%{cidade}%"\<close>: the path segment between two wildcards.\<close>

definition padrao_cidade :: "string \<Rightarrow> string" where
  "padrao_cidade cidade = ''%'' @ cidade @ ''%''"

definition get_clima_por_cidade :: "falhas \<Rightarrow> string \<Rightarrow> mundo \<Rightarrow> resposta_api \<times> mundo" where
  "get_clima_por_cidade f cidade w =
     (case get_db_connection f w of
        (False, w1) \<Rightarrow> (HTTPException 500, w1)
      | (True, w1) \<Rightarrow>
         (if falha_cursor f then (HTTPException 500, finalizar (tentar AbrirCursor w1))
          else (let w2 = abrir_cursor w1; padrao = padrao_cidade cidade in
           (if falha_execute f
            then (HTTPException 500, finalizar (tentar (ExecSelectCidade padrao) w2))
            else (let w3 = tentar (ExecSelectCidade padrao) w2 in
             (if falha_fetchall f then (HTTPException 500, finalizar (tentar Fetchall w3))
              else (let registros = ordenar_desc (filter (cidade_ilike padrao) (tabela w3)) in
               (if registros = [] then (HTTPException 404, finalizar (tentar Fetchall w3))
                else (Sucesso registros, finalizar (tentar Fetchall w3))))))))))"

section \<open>Notions used to state the properties\<close>

subsection \<open>Required fields of a response\<close>

text \<open>
  Reading a response without raising: \<open>campo\<close> is the value under a key of an object,
  \<open>primeiro\<close> the first element of a non-empty array. The ten required fields are the
  ten paths the extractor follows; a field is missing when its path leads nowhere.
\<close>

fun campo :: "json \<Rightarrow> string \<Rightarrow> json option" where
  "campo (JObj kvs) k = map_of kvs k"
| "campo _ k = None"

fun primeiro :: "json \<Rightarrow> json option" where
  "primeiro (JArr (x # xs)) = Some x"
| "primeiro _ = None"

definition campos_obrigatorios :: "json \<Rightarrow> json option list" where
  "campos_obrigatorios d =
     [campo d ''name'',
      Option.bind (campo d ''sys'') (\<lambda>s. campo s ''country''),
      Option.bind (campo d ''main'') (\<lambda>m. campo m ''temp''),
      Option.bind (campo d ''main'') (\<lambda>m. campo m ''feels_like''),
      Option.bind (campo d ''main'') (\<lambda>m. campo m ''temp_min''),
      Option.bind (campo d ''main'') (\<lambda>m. campo m ''temp_max''),
      Option.bind (campo d ''main'') (\<lambda>m. campo m ''humidity''),
      Option.bind (Option.bind (campo d ''weather'') primeiro) (\<lambda>w. campo w ''description''),
      Option.bind (campo d ''wind'') (\<lambda>w. campo w ''speed''),
      campo d ''dt'']"

definition falta_campo :: "json \<Rightarrow> bool" where
  "falta_campo d = (None \<in> set (campos_obrigatorios d))"

text \<open>
  A response has the expected shape when it is an object whose sections \<open>sys\<close>,
  \<open>main\<close> and \<open>wind\<close>, where present, are objects, and whose \<open>weather\<close>, where
  present, is a non-empty array that starts with an object.
\<close>

fun objeto :: "json \<Rightarrow> bool" where
  "objeto (JObj kvs) = True"
| "objeto _ = False"

fun secao_esperada :: "json option \<Rightarrow> bool" where
  "secao_esperada None = True"
| "secao_esperada (Some v) = objeto v"

fun lista_esperada :: "json option \<Rightarrow> bool" where
  "lista_esperada None = True"
| "lista_esperada (Some (JArr (x # xs))) = objeto x"
| "lista_esperada (Some v) = False"

definition forma_esperada :: "json \<Rightarrow> bool" where
  "forma_esperada d =
     (objeto d \<and> secao_esperada (campo d ''sys'') \<and> secao_esperada (campo d ''main'') \<and>
      lista_esperada (campo d ''weather'') \<and> secao_esperada (campo d ''wind''))"

text \<open>The exceptions the extractor catches, and the outcomes that are not a raise.\<close>

fun capturado :: "erro \<Rightarrow> bool" where
  "capturado (KeyError k) = True"
| "capturado e = False"

fun chave_ou_valor :: "erro + 'a \<Rightarrow> bool" where
  "chave_ou_valor (Inr v) = True"
| "chave_ou_valor (Inl e) = capturado e"

subsection \<open>Sample responses and records\<close>

definition tempo_nublado :: json where
  "tempo_nublado = JObj [(''id'', JInt 803), (''main'', JStr ''Clouds''), (''description'', JStr ''nublado'')]"

definition tempo_chuva :: json where
  "tempo_chuva = JObj [(''id'', JInt 500), (''main'', JStr ''Rain''), (''description'', JStr ''chuva leve'')]"

definition campos_resposta :: "(string \<times> json) list" where
  "campos_resposta =
     [(''weather'', JArr [tempo_nublado, tempo_chuva]),
      (''main'', JObj [(''temp'', JFloat 25.5), (''feels_like'', JFloat 26),
                       (''temp_min'', JFloat 24), (''temp_max'', JFloat 27),
                       (''pressure'', JInt 1013), (''humidity'', JInt 80)]),
      (''wind'', JObj [(''speed'', JFloat 3.5), (''deg'', JInt 90)]),
      (''dt'', JInt 1700000000),
      (''sys'', JObj [(''country'', JStr ''BR'')]),
      (''name'', JStr ''Florianopolis'')]"

definition registro_completo :: "(string \<times> json) list" where
  "registro_completo =
     [(''cidade'', JStr ''Florianopolis''), (''pais'', JStr ''BR''),
      (''temperatura_c'', JFloat 25.5), (''sensacao_termica_c'', JFloat 26),
      (''temp_min_c'', JFloat 24), (''temp_max_c'', JFloat 27),
      (''umidade_pct'', JInt 80), (''descricao'', JStr ''nublado''),
      (''velocidade_vento_ms'', JFloat 3.5), (''timestamp_coleta'', JInt 1700000000)]"

text \<open>The sample response with an empty \<open>weather\<close> array and nothing else changed.\<close>

definition resposta_weather_vazio :: json where
  "resposta_weather_vazio =
     JObj [(''weather'', JArr []),
           (''main'', JObj [(''temp'', JFloat 25.5), (''feels_like'', JFloat 26),
                            (''temp_min'', JFloat 24), (''temp_max'', JFloat 27),
                            (''pressure'', JInt 1013), (''humidity'', JInt 80)]),
           (''wind'', JObj [(''speed'', JFloat 3.5), (''deg'', JInt 90)]),
           (''dt'', JInt 1700000000),
           (''sys'', JObj [(''country'', JStr ''BR'')]),
           (''name'', JStr ''Florianopolis'')]"

text \<open>The sample response with \<^verbatim>\<open>null\<close> in the place of its \<open>main\<close> section.\<close>

definition resposta_main_nulo :: json where
  "resposta_main_nulo =
     JObj [(''weather'', JArr [tempo_nublado, tempo_chuva]),
           (''main'', JNull),
           (''wind'', JObj [(''speed'', JFloat 3.5), (''deg'', JInt 90)]),
           (''dt'', JInt 1700000000),
           (''sys'', JObj [(''country'', JStr ''BR'')]),
           (''name'', JStr ''Florianopolis'')]"

text \<open>A response that reports a humidity of 150 and a wind speed of -1.5.\<close>

definition resposta_fora_da_faixa :: json where
  "resposta_fora_da_faixa =
     JObj [(''weather'', JArr [tempo_nublado]),
           (''main'', JObj [(''temp'', JFloat 25.5), (''feels_like'', JFloat 26),
                            (''temp_min'', JFloat 24), (''temp_max'', JFloat 27),
                            (''humidity'', JInt 150)]),
           (''wind'', JObj [(''speed'', JFloat (- 1.5))]),
           (''dt'', JInt 1700000000),
           (''sys'', JObj [(''country'', JStr ''BR'')]),
           (''name'', JStr ''Florianopolis'')]"

definition registro_fora_da_faixa :: "(string \<times> json) list" where
  "registro_fora_da_faixa =
     [(''cidade'', JStr ''Florianopolis''), (''pais'', JStr ''BR''),
      (''temperatura_c'', JFloat 25.5), (''sensacao_termica_c'', JFloat 26),
      (''temp_min_c'', JFloat 24), (''temp_max_c'', JFloat 27),
      (''umidade_pct'', JInt 150), (''descricao'', JStr ''nublado''),
      (''velocidade_vento_ms'', JFloat (- 1.5)), (''timestamp_coleta'', JInt 1700000000)]"

text \<open>A response whose \<open>main\<close> section has no \<open>temp\<close>.\<close>

definition resposta_sem_temp :: json where
  "resposta_sem_temp =
     JObj [(''weather'', JArr [tempo_nublado]),
           (''main'', JObj [(''feels_like'', JFloat 26),
                            (''temp_min'', JFloat 24), (''temp_max'', JFloat 27),
                            (''humidity'', JInt 80)]),
           (''wind'', JObj [(''speed'', JFloat 3.5)]),
           (''dt'', JInt 1700000000),
           (''sys'', JObj [(''country'', JStr ''BR'')]),
           (''name'', JStr ''Florianopolis'')]"

definition mundo_inicial :: mundo where
  "mundo_inicial = \<lparr>tabela = [], pendente = [], abertas = 0, ops = [], saida = []\<rparr>"

subsection \<open>The bounds of the data model\<close>

text \<open>
  The data model wants \<open>humidity_pct\<close> to be an integer from 0 to 100 and
  \<open>wind_speed_ms\<close> to be a number that is not negative. A record is valid when it has
  all ten fields and meets both bounds.
\<close>

fun umidade_valida :: "json option \<Rightarrow> bool" where
  "umidade_valida (Some (JInt n)) = (0 \<le> n \<and> n \<le> 100)"
| "umidade_valida v = False"

fun vento_valido :: "json option \<Rightarrow> bool" where
  "vento_valido (Some (JFloat x)) = (0 \<le> x)"
| "vento_valido (Some (JInt n)) = (0 \<le> n)"
| "vento_valido v = False"

definition registro_valido :: "(string \<times> json) list \<Rightarrow> bool" where
  "registro_valido info =
     (list_all (\<lambda>c. map_of info c \<noteq> None) colunas \<and>
      umidade_valida (map_of info ''umidade_pct'') \<and>
      vento_valido (map_of info ''velocidade_vento_ms''))"

subsection \<open>Complete records and sample faults\<close>

text \<open>A record is complete when it has a value under each of the ten column names.\<close>

definition completo :: "(string \<times> json) list \<Rightarrow> bool" where
  "completo d = list_all (\<lambda>c. map_of d c \<noteq> None) colunas"

definition falha_no_execute :: falhas where
  "falha_no_execute = sem_falhas\<lparr>falha_execute := True\<rparr>"

definition falha_no_execute_e_rollback :: falhas where
  "falha_no_execute_e_rollback = sem_falhas\<lparr>falha_execute := True, falha_rollback := True\<rparr>"

definition linha_completa :: clima_row where
  "linha_completa = \<lparr>campos = registro_completo, data_insercao = 1700000100\<rparr>"

subsection \<open>Queries and stored rows\<close>

text \<open>A query string without any of the three characters \<^verbatim>\<open>ILIKE\<close> treats specially.\<close>

definition sem_curinga :: "string \<Rightarrow> bool" where
  "sem_curinga q = (CHR ''%'' \<notin> set q \<and> CHR ''_'' \<notin> set q \<and> CHR 0x5C \<notin> set q)"

text \<open>
  The row's city contains the query string as a substring, letters compared without
  regard to case.
\<close>

definition cidade_contem :: "string \<Rightarrow> clima_row \<Rightarrow> bool" where
  "cidade_contem q r =
     (case map_of (campos r) ''cidade'' of
        Some (JStr s) \<Rightarrow> sublist (map minuscula q) (map minuscula s)
      | _ \<Rightarrow> False)"

text \<open>None of the four driver calls of an endpoint fails.\<close>

definition sem_falha_leitura :: "falhas \<Rightarrow> bool" where
  "sem_falha_leitura f =
     (\<not> falha_connect f \<and> \<not> falha_cursor f \<and> \<not> falha_execute f \<and> \<not> falha_fetchall f)"

definition linha_recife :: clima_row where
  "linha_recife = \<lparr>campos = [(''cidade'', JStr ''Recife''), (''pais'', JStr ''BR'')],
                    data_insercao = 1700000200\<rparr>"

definition mundo_duas_linhas :: mundo where
  "mundo_duas_linhas = mundo_inicial\<lparr>tabela := [linha_completa, linha_recife]\<rparr>"

definition mundo_uma_linha :: mundo where
  "mundo_uma_linha = mundo_inicial\<lparr>tabela := [linha_completa]\<rparr>"

definition falha_na_conexao :: falhas where
  "falha_na_conexao = sem_falhas\<lparr>falha_connect := True\<rparr>"

section \<open>Facts about subscripts and the extractor\<close>

lemma entao_Inl [simp]: "entao (Inl e) f = Inl e"
  by (simp add: entao_def)

lemma entao_Inr [simp]: "entao (Inr v) f = f v"
  by (simp add: entao_def)

lemma entao_eq_Inr: "entao m f = Inr r \<longleftrightarrow> (\<exists>v. m = Inr v \<and> f v = Inr r)"
  by (cases m) simp_all

lemma item_chave_Inr:
  "item_chave d k = Inr v \<longleftrightarrow> (\<exists>kvs. d = JObj kvs \<and> map_of kvs k = Some v)"
  by (cases d) (auto split: option.splits)

lemma item_zero_Inr:
  "item_zero d = Inr v \<longleftrightarrow>
     (\<exists>xs. d = JArr (v # xs)) \<or> (\<exists>c cs. d = JStr (c # cs) \<and> v = JStr [c])"
  by (cases d rule: item_zero.cases) auto

lemma item_chave_campo: "item_chave d k = Inr v \<Longrightarrow> campo d k = Some v"
  by (auto simp: item_chave_Inr)

lemma item_zero_primeiro: "item_zero d = Inr v \<Longrightarrow> objeto v \<Longrightarrow> primeiro d = Some v"
  by (cases d rule: item_zero.cases) auto

lemma chave_ou_valor_entao:
  "chave_ou_valor m \<Longrightarrow> (\<And>v. m = Inr v \<Longrightarrow> chave_ou_valor (f v)) \<Longrightarrow> chave_ou_valor (entao m f)"
  by (cases m) simp_all

lemma chave_ou_valor_objeto: "objeto d \<Longrightarrow> chave_ou_valor (item_chave d k)"
  by (cases d) (simp_all split: option.splits)

lemma chave_ou_valor_secao:
  "objeto d \<Longrightarrow> secao_esperada (campo d sec) \<Longrightarrow>
   chave_ou_valor (entao (item_chave d sec) (\<lambda>s. item_chave s k))"
  by (cases d) (auto split: option.splits simp: chave_ou_valor_objeto)

lemma chave_ou_valor_lista:
  "objeto d \<Longrightarrow> lista_esperada (campo d sec) \<Longrightarrow>
   chave_ou_valor (entao (entao (item_chave d sec) item_zero) (\<lambda>s. item_chave s k))"
  by (cases d; cases "campo d sec" rule: lista_esperada.cases)
     (auto split: option.splits simp: chave_ou_valor_objeto)

lemma chave_ou_valor_passo:
  "chave_ou_valor m \<Longrightarrow> (\<And>v. chave_ou_valor (f v)) \<Longrightarrow> chave_ou_valor (entao m f)"
  by (cases m) simp_all

lemma info_extraida_forma:
  assumes "forma_esperada d"
  shows "chave_ou_valor (info_extraida d)"
proof -
  from assms have ob: "objeto d"
    and sys: "secao_esperada (campo d ''sys'')"
    and main: "secao_esperada (campo d ''main'')"
    and weather: "lista_esperada (campo d ''weather'')"
    and wind: "secao_esperada (campo d ''wind'')"
    by (simp_all add: forma_esperada_def)
  note topo = chave_ou_valor_objeto [OF ob]
  note em_sys = chave_ou_valor_secao [OF ob sys]
  note em_main = chave_ou_valor_secao [OF ob main]
  note em_weather = chave_ou_valor_lista [OF ob weather]
  note em_wind = chave_ou_valor_secao [OF ob wind]
  show ?thesis
    unfolding info_extraida_def
    apply (rule chave_ou_valor_passo, rule topo)
    apply (rule chave_ou_valor_passo, rule em_sys)
    apply (rule chave_ou_valor_passo, rule em_main)
    apply (rule chave_ou_valor_passo, rule em_main)
    apply (rule chave_ou_valor_passo, rule em_main)
    apply (rule chave_ou_valor_passo, rule em_main)
    apply (rule chave_ou_valor_passo, rule em_main)
    apply (rule chave_ou_valor_passo, rule em_weather)
    apply (rule chave_ou_valor_passo, rule em_wind)
    apply (rule chave_ou_valor_passo, rule topo)
    apply simp
    done
qed

lemma info_extraida_presentes:
  assumes "info_extraida d = Inr info"
  shows "\<not> falta_campo d"
  using assms unfolding info_extraida_def
  apply (elim entao_eq_Inr[THEN iffD1, elim_format] exE conjE)
  apply (auto simp: falta_campo_def campos_obrigatorios_def item_chave_Inr)
  apply (auto simp: item_zero_Inr)
  done


lemma extrair_completa:
  "extrair_info_interesse (JObj campos_resposta) = (Retorna (Some registro_completo), [])"
  by (simp add: extrair_info_interesse_def info_extraida_def campos_resposta_def
      registro_completo_def tempo_nublado_def tempo_chuva_def)

lemma extrair_Some_iff:
  "fst (extrair_info_interesse d) = Retorna (Some info) \<longleftrightarrow> info_extraida d = Inr info"
proof (cases "info_extraida d")
  case (Inl e)
  then show ?thesis by (cases e) (simp_all add: extrair_info_interesse_def)
next
  case (Inr r)
  then have "d \<noteq> JNull" by (auto simp: info_extraida_def)
  with Inr show ?thesis by (simp add: extrair_info_interesse_def)
qed

lemma info_extraida_chaves: "info_extraida d = Inr info \<Longrightarrow> map fst info = colunas"
  unfolding info_extraida_def colunas_def
  by (elim entao_eq_Inr[THEN iffD1, elim_format] exE conjE) auto

lemma info_extraida_umidade:
  "info_extraida d = Inr info \<Longrightarrow>
   map_of info ''umidade_pct'' = Option.bind (campo d ''main'') (\<lambda>m. campo m ''humidity'')"
  unfolding info_extraida_def
  by (elim entao_eq_Inr[THEN iffD1, elim_format] exE conjE) (auto simp: item_chave_Inr)

lemma info_extraida_vento:
  "info_extraida d = Inr info \<Longrightarrow>
   map_of info ''velocidade_vento_ms'' = Option.bind (campo d ''wind'') (\<lambda>m. campo m ''speed'')"
  unfolding info_extraida_def
  by (elim entao_eq_Inr[THEN iffD1, elim_format] exE conjE) (auto simp: item_chave_Inr)

lemma chaves_presentes: "map fst info = colunas \<Longrightarrow> list_all (\<lambda>c. map_of info c \<noteq> None) colunas"
proof -
  assume "map fst info = colunas"
  then have "\<forall>c\<in>set colunas. map_of info c \<noteq> None"
    by (metis map_of_eq_None_iff set_map)
  then show ?thesis by (simp add: list_all_iff)
qed

lemma imprimir_bd [simp]:
  "ops (imprimir m w) = ops w" "tabela (imprimir m w) = tabela w"
  "pendente (imprimir m w) = pendente w" "abertas (imprimir m w) = abertas w"
  by (simp_all add: imprimir_def)

lemma imprimir_todas_bd [simp]:
  "ops (imprimir_todas ms w) = ops w" "tabela (imprimir_todas ms w) = tabela w"
  "pendente (imprimir_todas ms w) = pendente w" "abertas (imprimir_todas ms w) = abertas w"
  by (simp_all add: imprimir_todas_def)

lemma buscar_bd:
  "ops (snd (buscar_dados_climaticos c rede w)) = ops w \<and>
   tabela (snd (buscar_dados_climaticos c rede w)) = tabela w"
  by (cases rede) (simp_all add: buscar_dados_climaticos_def Let_def split: option.splits)

lemma buscar_resposta:
  "fst (buscar_dados_climaticos c (Resposta st (Some d)) w) = JNull \<or>
   fst (buscar_dados_climaticos c (Resposta st (Some d)) w) = d"
  by (simp add: buscar_dados_climaticos_def Let_def)

lemma extrair_sem_registro_casos:
  assumes "\<forall>info. fst (extrair_info_interesse d) \<noteq> Retorna (Some info)"
  obtains ms where "extrair_info_interesse d = (Retorna None, ms)"
    | e ms where "extrair_info_interesse d = (Levanta e, ms)"
proof (cases "extrair_info_interesse d")
  case (Pair r ms)
  show ?thesis
  proof (cases r)
    case (Retorna v)
    with Pair assms have "v = None" by (cases v) auto
    with Pair Retorna that show ?thesis by simp
  next
    case (Levanta e)
    with Pair that show ?thesis by simp
  qed
qed

lemma execucao_sem_registro:
  assumes "\<forall>info. fst (extrair_info_interesse d) \<noteq> Retorna (Some info)"
  shows "ops (snd (execucao_principal (Resposta st (Some d)) f agora w)) = ops w \<and>
         tabela (snd (execucao_principal (Resposta st (Some d)) f agora w)) = tabela w"
proof -
  obtain b w1 where b: "buscar_dados_climaticos cidade_para_buscar (Resposta st (Some d)) w = (b, w1)"
    by (cases "buscar_dados_climaticos cidade_para_buscar (Resposta st (Some d)) w")
  from buscar_bd [of cidade_para_buscar "Resposta st (Some d)" w] b
  have w1: "ops w1 = ops w" "tabela w1 = tabela w" by simp_all
  from buscar_resposta [of cidade_para_buscar st d w] b
  consider "b = JNull" | "b = d" by auto
  then show ?thesis
  proof cases
    case 1
    with b w1 show ?thesis by (simp add: execucao_principal_def)
  next
    case 2
    from assms show ?thesis
    proof (cases rule: extrair_sem_registro_casos)
      case (1 ms)
      with 2 b w1 show ?thesis by (simp add: execucao_principal_def)
    next
      case (2 e ms)
      with \<open>b = d\<close> b w1 show ?thesis by (simp add: execucao_principal_def)
    qed
  qed
qed

lemma salvar_None: "salvar_dados_no_bd f agora None w = (Retorna (), imprimir NenhumDado w)"
  by (simp add: salvar_dados_no_bd_def)

lemma extrair_forma:
  assumes "forma_esperada d" and "falta_campo d"
  shows "fst (extrair_info_interesse d) = Retorna None"
proof (cases "info_extraida d")
  case (Inr info)
  with assms(2) show ?thesis using info_extraida_presentes by blast
next
  case (Inl e)
  with info_extraida_forma [OF assms(1)] have "capturado e" by simp
  then obtain k where "e = KeyError k" by (cases e) simp_all
  with Inl show ?thesis by (simp add: extrair_info_interesse_def)
qed

text \<open>
  What holds for every response in which a required field is missing: extraction
  produces no record, and the fetch cycle makes no call to the database driver and leaves
  the table as it was; the writer, given \<^verbatim>\<open>None\<close>, makes no such call either. When
  the response has the expected shape, so that what is missing is a key, the extraction
  returns \<^verbatim>\<open>None\<close>.
\<close>

lemma campo_ausente_nao_grava:
  assumes "falta_campo d"
  shows "(\<forall>info. fst (extrair_info_interesse d) \<noteq> Retorna (Some info)) \<and>
         (forma_esperada d \<longrightarrow> fst (extrair_info_interesse d) = Retorna None) \<and>
         ops (snd (execucao_principal (Resposta st (Some d)) f agora w)) = ops w \<and>
         tabela (snd (execucao_principal (Resposta st (Some d)) f agora w)) = tabela w \<and>
         ops (snd (salvar_dados_no_bd f agora None w)) = ops w"
proof -
  have n: "\<forall>info. fst (extrair_info_interesse d) \<noteq> Retorna (Some info)"
    using assms info_extraida_presentes by (auto simp: extrair_Some_iff)
  from execucao_sem_registro [OF n] n extrair_forma assms show ?thesis
    by (simp add: salvar_None)
qed

lemma campo_ausente_nao_grava_sem_temp:
  "falta_campo resposta_sem_temp \<and> forma_esperada resposta_sem_temp \<and>
   fst (extrair_info_interesse resposta_sem_temp) = Retorna None \<and>
   ops (snd (execucao_principal (Resposta 200 (Some resposta_sem_temp)) sem_falhas 0 mundo_inicial)) = [] \<and>
   tabela (snd (execucao_principal (Resposta 200 (Some resposta_sem_temp)) sem_falhas 0 mundo_inicial)) = []"
proof -
  have h: "falta_campo resposta_sem_temp"
    by (simp add: falta_campo_def campos_obrigatorios_def resposta_sem_temp_def)
  have g: "forma_esperada resposta_sem_temp"
    by (simp add: forma_esperada_def resposta_sem_temp_def tempo_nublado_def)
  from campo_ausente_nao_grava [OF h, of 200 sem_falhas 0 mundo_inicial] h g show ?thesis
    by (simp add: mundo_inicial_def)
qed

section \<open>Facts about the writer\<close>

lemma todos_Inr_Cons:
  "todos (m # ms) = Inr r \<longleftrightarrow> (\<exists>v vs. m = Inr v \<and> todos ms = Inr vs \<and> r = v # vs)"
  by (cases m; cases "todos ms") auto

lemma valores_completo:
  assumes "completo d"
  shows "valores d = Inr (map (\<lambda>c. the (map_of d c)) colunas)"
  using assms by (auto simp: completo_def colunas_def valores_def)

lemma valores_Inr_completo:
  assumes "valores d = Inr vs"
  shows "completo d"
  using assms unfolding valores_def
  by (auto simp del: todos.simps item_chave.simps simp add: todos_Inr_Cons item_chave_Inr completo_def colunas_def)


lemmas chamadas_bd =
  tentar_def conectar_def abrir_cursor_def exec_insert_def commit_def rollback_def
  fechar_cursor_def fechar_conexao_def imprimir_def

lemma completo_cidade: "completo d \<Longrightarrow> \<exists>c. item_chave (JObj d) ''cidade'' = Inr c"
  by (auto simp: completo_def colunas_def)

lemma zip_colunas: "zip cs (map g cs) = map (\<lambda>c. (c, g c)) cs"
  by (induction cs) simp_all

lemma salvar_sucesso:
  assumes "completo d"
      and "\<not> falha_connect f" "\<not> falha_cursor f" "\<not> falha_execute f" "\<not> falha_commit f"
  shows "fst (salvar_dados_no_bd f agora (Some d) w) = Retorna ()"
    and "tabela (snd (salvar_dados_no_bd f agora (Some d) w)) =
           tabela w @ [\<lparr>campos = map (\<lambda>c. (c, the (map_of d c))) colunas, data_insercao = agora\<rparr>]"
proof -
  from completo_cidade [OF assms(1)] obtain c where c: "item_chave (JObj d) ''cidade'' = Inr c" ..
  note v = valores_completo [OF assms(1)]
  show "fst (salvar_dados_no_bd f agora (Some d) w) = Retorna ()"
    using assms(2-) c v by (simp add: salvar_dados_no_bd_def Let_def del: item_chave.simps)
  show "tabela (snd (salvar_dados_no_bd f agora (Some d) w)) =
           tabela w @ [\<lparr>campos = map (\<lambda>c. (c, the (map_of d c))) colunas, data_insercao = agora\<rparr>]"
    using assms(2-) c v
    by (simp add: salvar_dados_no_bd_def Let_def chamadas_bd zip_colunas del: item_chave.simps)
qed

lemma salvar_sucesso_saida:
  assumes "completo d"
      and "\<not> falha_connect f" "\<not> falha_cursor f" "\<not> falha_execute f" "\<not> falha_commit f"
  shows "\<exists>c. saida (snd (salvar_dados_no_bd f agora (Some d) w)) = saida w @ [SalvoComSucesso c]"
proof -
  from completo_cidade [OF assms(1)] obtain c where c: "item_chave (JObj d) ''cidade'' = Inr c" ..
  note v = valores_completo [OF assms(1)]
  have "saida (snd (salvar_dados_no_bd f agora (Some d) w)) = saida w @ [SalvoComSucesso c]"
    using assms(2-) c v
    by (simp add: salvar_dados_no_bd_def Let_def chamadas_bd del: item_chave.simps)
  then show ?thesis ..
qed

lemma salvar_incompleto:
  assumes "\<not> completo d"
  shows "tabela (snd (salvar_dados_no_bd f agora (Some d) w)) = tabela w"
proof -
  from assms obtain e where "valores d = Inl e"
    using valores_Inr_completo by (cases "valores d") auto
  then show ?thesis
    by (simp add: salvar_dados_no_bd_def tratar_erro_def Let_def chamadas_bd)
qed

lemma salvar_falha:
  assumes "completo d"
      and "falha_connect f \<or> falha_cursor f \<or> falha_execute f \<or> falha_commit f"
  shows "fst (salvar_dados_no_bd f agora (Some d) w) =
           (if \<not> falha_connect f \<and> falha_rollback f then Levanta Psycopg2Error else Retorna ())"
    and "tabela (snd (salvar_dados_no_bd f agora (Some d) w)) = tabela w"
    and "saida (snd (salvar_dados_no_bd f agora (Some d) w)) = saida w @ [ErroSalvar]"
    and "\<exists>tr. ops (snd (salvar_dados_no_bd f agora (Some d) w)) = ops w @ tr \<and> distinct tr \<and>
              (Rollback \<in> set tr) = (\<not> falha_connect f)"
  using assms(2) valores_completo [OF assms(1)]
  by (auto simp: salvar_dados_no_bd_def tratar_erro_def Let_def chamadas_bd)

lemma completo_registro: "completo registro_completo"
  by (simp add: completo_def colunas_def registro_completo_def)

section \<open>Facts about the queries\<close>

lemma simbolos_literal:
  "c \<noteq> CHR 0x5C \<Longrightarrow> c \<noteq> CHR ''%'' \<Longrightarrow> c \<noteq> CHR ''_'' \<Longrightarrow> simbolos (c # p) = Literal c # simbolos p"
  by (cases p) simp_all

lemma simbolos_curinga: "simbolos (CHR ''%'' # p) = Qualquer # simbolos p"
  by (cases p) simp_all

lemma simbolos_literais: "sem_curinga q \<Longrightarrow> simbolos (q @ p) = map Literal q @ simbolos p"
  by (induction q) (auto simp: sem_curinga_def simbolos_literal)

lemma casa_literais:
  "casa (map Literal q @ ps) s \<longleftrightarrow>
     length q \<le> length s \<and> map minuscula (take (length q) s) = map minuscula q \<and>
     casa ps (drop (length q) s)"
proof (induction q arbitrary: s)
  case Nil
  then show ?case by simp
next
  case (Cons a q)
  then show ?case by (cases s) auto
qed

lemma casa_qualquer: "casa (Qualquer # ps) s \<longleftrightarrow> (\<exists>n\<le>length s. casa ps (drop n s))"
proof (induction s)
  case Nil
  then show ?case by simp
next
  case (Cons c s)
  have "(\<exists>n\<le>length (c # s). casa ps (drop n (c # s))) \<longleftrightarrow>
        casa ps (c # s) \<or> (\<exists>n\<le>length s. casa ps (drop n s))"
  proof
    assume "\<exists>n\<le>length (c # s). casa ps (drop n (c # s))"
    then obtain n where n: "n \<le> length (c # s)" "casa ps (drop n (c # s))" by blast
    show "casa ps (c # s) \<or> (\<exists>n\<le>length s. casa ps (drop n s))"
    proof (cases n)
      case 0
      with n show ?thesis by simp
    next
      case (Suc m)
      with n have "m \<le> length s" "casa ps (drop m s)" by simp_all
      then show ?thesis by blast
    qed
  next
    assume "casa ps (c # s) \<or> (\<exists>n\<le>length s. casa ps (drop n s))"
    then show "\<exists>n\<le>length (c # s). casa ps (drop n (c # s))"
    proof
      assume "casa ps (c # s)"
      then have "0 \<le> length (c # s) \<and> casa ps (drop 0 (c # s))" by simp
      then show ?thesis by blast
    next
      assume "\<exists>n\<le>length s. casa ps (drop n s)"
      then obtain m where "m \<le> length s" "casa ps (drop m s)" by blast
      then have "Suc m \<le> length (c # s) \<and> casa ps (drop (Suc m) (c # s))" by simp
      then show ?thesis by blast
    qed
  qed
  with Cons show ?case by simp
qed

lemma casa_fim: "casa [Qualquer] s"
  by (induction s) simp_all

lemma sublist_posicao:
  "sublist xs ys \<longleftrightarrow> (\<exists>n\<le>length ys. length xs \<le> length (drop n ys) \<and> take (length xs) (drop n ys) = xs)"
proof
  assume "sublist xs ys"
  then obtain ps ss where ys: "ys = ps @ xs @ ss" by (auto simp: sublist_def)
  have "length ps \<le> length ys \<and> length xs \<le> length (drop (length ps) ys) \<and>
        take (length xs) (drop (length ps) ys) = xs"
    by (simp add: ys)
  then show "\<exists>n\<le>length ys. length xs \<le> length (drop n ys) \<and> take (length xs) (drop n ys) = xs"
    by blast
next
  assume "\<exists>n\<le>length ys. length xs \<le> length (drop n ys) \<and> take (length xs) (drop n ys) = xs"
  then obtain n where n: "take (length xs) (drop n ys) = xs" by blast
  have "ys = take n ys @ take (length xs) (drop n ys) @ drop (length xs) (drop n ys)"
    by (simp only: append_take_drop_id)
  with n have "ys = take n ys @ xs @ drop (length xs) (drop n ys)" by simp
  then show "sublist xs ys" unfolding sublist_def by blast
qed

lemma ilike_contem:
  assumes "sem_curinga q"
  shows "ilike s (padrao_cidade q) \<longleftrightarrow> sublist (map minuscula q) (map minuscula s)"
proof -
  have "simbolos (''%'' @ q @ ''%'') = Qualquer # map Literal q @ [Qualquer]"
    using assms by (simp add: simbolos_curinga simbolos_literais)
  then have "ilike s (padrao_cidade q) \<longleftrightarrow>
      casa (Qualquer # map Literal q @ [Qualquer]) s"
    by (simp add: ilike_def padrao_cidade_def)
  also have "\<dots> \<longleftrightarrow> (\<exists>n\<le>length s. casa (map Literal q @ [Qualquer]) (drop n s))"
    by (rule casa_qualquer)
  also have "\<dots> \<longleftrightarrow> (\<exists>n\<le>length s. length q \<le> length (drop n s) \<and>
          map minuscula (take (length q) (drop n s)) = map minuscula q)"
    by (simp add: casa_literais casa_fim)
  also have "\<dots> \<longleftrightarrow> sublist (map minuscula q) (map minuscula s)"
    by (simp add: sublist_posicao take_map drop_map)
  finally show ?thesis .
qed


lemma cidade_ilike_contem:
  "sem_curinga q \<Longrightarrow> cidade_ilike (padrao_cidade q) r = cidade_contem q r"
  by (simp add: cidade_ilike_def cidade_contem_def ilike_contem split: option.splits json.splits)

lemma ordenar_desc_Nil [simp]: "ordenar_desc rs = [] \<longleftrightarrow> rs = []"
  by (cases rs) (simp_all add: ordenar_desc_def)

lemma ordenar_desc_mset: "mset (ordenar_desc rs) = mset rs"
  by (simp add: ordenar_desc_def)

lemma ordenar_desc_sorted:
  "sorted_wrt (\<lambda>a b. data_insercao b \<le> data_insercao a) (ordenar_desc rs)"
proof -
  have "sorted (map data_insercao (sort_key data_insercao rs))"
    by (rule sorted_sort_key)
  then show ?thesis
    by (simp add: ordenar_desc_def sorted_wrt_rev sorted_map)
qed

lemma get_clima_todos_sem_falha:
  "sem_falha_leitura f \<Longrightarrow> fst (get_clima_todos f w) = Sucesso (ordenar_desc (tabela w))"
  by (simp add: sem_falha_leitura_def get_clima_todos_def get_db_connection_def Let_def chamadas_bd)

lemma get_clima_por_cidade_sem_falha:
  "sem_falha_leitura f \<Longrightarrow>
   fst (get_clima_por_cidade f cidade w) =
     (if filter (cidade_ilike (padrao_cidade cidade)) (tabela w) = [] then HTTPException 404
      else Sucesso (ordenar_desc (filter (cidade_ilike (padrao_cidade cidade)) (tabela w))))"
  by (simp add: sem_falha_leitura_def get_clima_por_cidade_def get_db_connection_def Let_def
      chamadas_bd)

lemma get_clima_por_cidade_falha:
  "\<not> sem_falha_leitura f \<Longrightarrow> fst (get_clima_por_cidade f cidade w) = HTTPException 500"
  by (auto simp: sem_falha_leitura_def get_clima_por_cidade_def get_db_connection_def Let_def)

lemma por_cidade_sem_curinga:
  assumes "sem_falha_leitura f" and "sem_curinga cidade"
      and "filter (cidade_contem cidade) (tabela w) \<noteq> []"
  shows "\<exists>rs. fst (get_clima_por_cidade f cidade w) = Sucesso rs \<and>
              mset rs = mset (filter (cidade_contem cidade) (tabela w)) \<and>
              sorted_wrt (\<lambda>a b. data_insercao b \<le> data_insercao a) rs"
proof -
  have "filter (cidade_ilike (padrao_cidade cidade)) (tabela w) =
        filter (cidade_contem cidade) (tabela w)"
    using assms(2) by (simp add: cidade_ilike_contem cong: filter_cong)
  with assms(1,3) show ?thesis
    by (simp add: get_clima_por_cidade_sem_falha ordenar_desc_mset ordenar_desc_sorted)
qed

text \<open>
  The status of \<^verbatim>\<open>GET /clima/{cidade}\<close>: 500 exactly when a driver call fails,
  404 exactly when no call fails and the query selects no row, and 200 otherwise. For a
  query string without wildcard characters the rows the query selects are the rows whose
  city contains the string.
\<close>

lemma status_por_cidade:
  "status_http (fst (get_clima_por_cidade f cidade w)) =
     (if \<not> sem_falha_leitura f then 500
      else if filter (cidade_ilike (padrao_cidade cidade)) (tabela w) = [] then 404
      else 200) \<and>
   (sem_curinga cidade \<longrightarrow>
      filter (cidade_ilike (padrao_cidade cidade)) (tabela w) = filter (cidade_contem cidade) (tabela w))"
proof
  show "status_http (fst (get_clima_por_cidade f cidade w)) =
     (if \<not> sem_falha_leitura f then 500
      else if filter (cidade_ilike (padrao_cidade cidade)) (tabela w) = [] then 404
      else 200)"
    by (cases "sem_falha_leitura f")
       (simp_all add: get_clima_por_cidade_sem_falha get_clima_por_cidade_falha)
  show "sem_curinga cidade \<longrightarrow>
      filter (cidade_ilike (padrao_cidade cidade)) (tabela w) = filter (cidade_contem cidade) (tabela w)"
    by (simp add: cidade_ilike_contem cong: filter_cong)
qed


lemma status_por_cidade_exemplos:
  "status_http (fst (get_clima_por_cidade sem_falhas ''xyz'' mundo_duas_linhas)) = 404 \<and>
   status_http (fst (get_clima_por_cidade sem_falhas ''recife'' mundo_duas_linhas)) = 200 \<and>
   status_http (fst (get_clima_por_cidade falha_na_conexao ''recife'' mundo_duas_linhas)) = 500 \<and>
   sem_curinga ''xyz'' \<and>
   filter (cidade_contem ''xyz'') (tabela mundo_duas_linhas) = []"
proof -
  have c: "sem_curinga ''xyz''" by (simp add: sem_curinga_def)
  have s: "sem_falha_leitura sem_falhas" "\<not> sem_falha_leitura falha_na_conexao"
    by (simp_all add: sem_falha_leitura_def sem_falhas_def falha_na_conexao_def)
  have x: "filter (cidade_ilike (padrao_cidade ''xyz'')) (tabela mundo_duas_linhas) = []"
    by (simp add: mundo_duas_linhas_def mundo_inicial_def linha_completa_def linha_recife_def
        registro_completo_def cidade_ilike_def ilike_def padrao_cidade_def minuscula_def)
  have r: "filter (cidade_ilike (padrao_cidade ''recife'')) (tabela mundo_duas_linhas) = [linha_recife]"
    by (simp add: mundo_duas_linhas_def mundo_inicial_def linha_completa_def linha_recife_def
        registro_completo_def cidade_ilike_def ilike_def padrao_cidade_def minuscula_def)
  from status_por_cidade [of sem_falhas "''xyz''" mundo_duas_linhas]
       status_por_cidade [of sem_falhas "''recife''" mundo_duas_linhas]
       status_por_cidade [of falha_na_conexao "''recife''" mundo_duas_linhas]
       c s x r
  show ?thesis by simp
qed

section \<open>Properties of the extractor\<close>

text \<open>
  C10. When the \<open>weather\<close> array of a response is not empty, the extracted description
  comes from its first element alone: replacing the rest of the array by anything else
  leaves the outcome of the extraction unchanged, and a record that is produced carries
  the \<open>description\<close> of the first element.
\<close>

theorem descricao_so_do_primeiro:
  assumes "map_of kvs ''weather'' = Some (JArr (w # ws))"
  shows "extrair_info_interesse (JObj (AList.update ''weather'' (JArr (w # ws')) kvs)) =
           extrair_info_interesse (JObj kvs) \<and>
         (\<forall>info. fst (extrair_info_interesse (JObj kvs)) = Retorna (Some info) \<longrightarrow>
            item_chave w ''description'' = Inr (the (map_of info ''descricao'')) \<and>
            map_of info ''descricao'' \<noteq> None)"
proof
  show "extrair_info_interesse (JObj (AList.update ''weather'' (JArr (w # ws')) kvs)) =
           extrair_info_interesse (JObj kvs)"
    using assms by (simp add: extrair_info_interesse_def info_extraida_def update_conv')
next
  show "\<forall>info. fst (extrair_info_interesse (JObj kvs)) = Retorna (Some info) \<longrightarrow>
            item_chave w ''description'' = Inr (the (map_of info ''descricao'')) \<and>
            map_of info ''descricao'' \<noteq> None"
  proof (intro allI impI)
    fix info
    assume "fst (extrair_info_interesse (JObj kvs)) = Retorna (Some info)"
    then have "info_extraida (JObj kvs) = Inr info" by (simp add: extrair_Some_iff)
    then show "item_chave w ''description'' = Inr (the (map_of info ''descricao'')) \<and>
            map_of info ''descricao'' \<noteq> None"
      using assms unfolding info_extraida_def
      by (elim entao_eq_Inr[THEN iffD1, elim_format] exE conjE) auto
  qed
qed

theorem descricao_so_do_primeiro_witness:
  "map_of campos_resposta ''weather'' = Some (JArr (tempo_nublado # [tempo_chuva])) \<and>
   extrair_info_interesse (JObj (AList.update ''weather'' (JArr (tempo_nublado # [])) campos_resposta)) =
     extrair_info_interesse (JObj campos_resposta) \<and>
   fst (extrair_info_interesse (JObj campos_resposta)) = Retorna (Some registro_completo) \<and>
   item_chave tempo_nublado ''description'' = Inr (the (map_of registro_completo ''descricao''))"
proof -
  have h: "map_of campos_resposta ''weather'' = Some (JArr (tempo_nublado # [tempo_chuva]))"
    by (simp add: campos_resposta_def)
  have e: "fst (extrair_info_interesse (JObj campos_resposta)) = Retorna (Some registro_completo)"
    by (simp add: extrair_completa)
  from descricao_so_do_primeiro [OF h, of "[]"] h e show ?thesis by blast
qed

text \<open>
  C2. The extractor is meant to return either a record with all ten fields or
  \<^verbatim>\<open>None\<close>, whatever the response looks like. On the response with an empty
  \<open>weather\<close> array it does neither: \<^verbatim>\<open>weather[0]\<close> raises
  \<^verbatim>\<open>IndexError\<close>, the handler catches \<^verbatim>\<open>KeyError\<close> only, and the
  exception leaves the function.
\<close>

theorem extrair_weather_vazio_levanta:
  "extrair_info_interesse resposta_weather_vazio = (Levanta IndexError, [])"
  by (simp add: extrair_info_interesse_def info_extraida_def resposta_weather_vazio_def
      campos_resposta_def)

text \<open>
  C7, as stated: every record that extraction produces meets the bounds of the data
  model. It does not: the response reporting a humidity of 150 and a wind speed of -1.5
  is extracted into a record with exactly these values.
\<close>

theorem extrair_fora_da_faixa:
  "fst (extrair_info_interesse resposta_fora_da_faixa) = Retorna (Some registro_fora_da_faixa) \<and>
   \<not> registro_valido registro_fora_da_faixa"
  by (simp add: extrair_info_interesse_def info_extraida_def resposta_fora_da_faixa_def
      registro_fora_da_faixa_def tempo_nublado_def registro_valido_def)

text \<open>
  C7, amended. A record that extraction produces has the ten fields, in the order of the
  table's columns, and its humidity and wind speed are the values found under
  \<open>main.humidity\<close> and \<open>wind.speed\<close> of the response, unchanged and unchecked: the
  record meets the bounds exactly when the response does.
\<close>

theorem extrair_copia_sem_validar:
  assumes "fst (extrair_info_interesse d) = Retorna (Some info)"
  shows "map fst info = colunas \<and>
         map_of info ''umidade_pct'' = Option.bind (campo d ''main'') (\<lambda>m. campo m ''humidity'') \<and>
         map_of info ''velocidade_vento_ms'' = Option.bind (campo d ''wind'') (\<lambda>w. campo w ''speed'') \<and>
         registro_valido info =
           (umidade_valida (Option.bind (campo d ''main'') (\<lambda>m. campo m ''humidity'')) \<and>
            vento_valido (Option.bind (campo d ''wind'') (\<lambda>w. campo w ''speed'')))"
proof -
  from assms have i: "info_extraida d = Inr info" by (simp add: extrair_Some_iff)
  note k = info_extraida_chaves [OF i]
  show ?thesis
    using k chaves_presentes [OF k] info_extraida_umidade [OF i] info_extraida_vento [OF i]
    by (simp add: registro_valido_def)
qed

theorem extrair_copia_sem_validar_witness:
  "fst (extrair_info_interesse (JObj campos_resposta)) = Retorna (Some registro_completo) \<and>
   map fst registro_completo = colunas \<and>
   map_of registro_completo ''umidade_pct'' = Some (JInt 80) \<and>
   map_of registro_completo ''velocidade_vento_ms'' = Some (JFloat 3.5) \<and>
   registro_valido registro_completo"
proof -
  have e: "fst (extrair_info_interesse (JObj campos_resposta)) = Retorna (Some registro_completo)"
    by (simp add: extrair_completa)
  from extrair_copia_sem_validar [OF e] e show ?thesis
    by (simp add: campos_resposta_def)
qed

text \<open>
  C8. A response in which a required field is missing is meant to make the extractor
  return \<^verbatim>\<open>None\<close>, so that nothing is written. With \<^verbatim>\<open>null\<close> in the
  place of the \<open>main\<close> section the field \<open>main.temp\<close> is missing, and the extractor
  does not return: \<^verbatim>\<open>None['temp']\<close> raises \<^verbatim>\<open>TypeError\<close>, which the
  handler for \<^verbatim>\<open>KeyError\<close> lets pass, and the fetch cycle ends with that
  exception. No call to the database driver is made on the way.
\<close>

theorem campo_ausente_levanta:
  "falta_campo resposta_main_nulo \<and>
   extrair_info_interesse resposta_main_nulo = (Levanta TypeError, []) \<and>
   fst (execucao_principal (Resposta 200 (Some resposta_main_nulo)) sem_falhas 0 mundo_inicial) =
     Levanta TypeError \<and>
   ops (snd (execucao_principal (Resposta 200 (Some resposta_main_nulo)) sem_falhas 0 mundo_inicial)) = []"
proof -
  have e: "extrair_info_interesse resposta_main_nulo = (Levanta TypeError, [])"
    by (simp add: extrair_info_interesse_def info_extraida_def resposta_main_nulo_def)
  have b: "buscar_dados_climaticos cidade_para_buscar (Resposta 200 (Some resposta_main_nulo))
             mundo_inicial =
           (resposta_main_nulo, imprimir (BuscandoDados cidade_para_buscar) mundo_inicial)"
    by (simp add: buscar_dados_climaticos_def)
  have v: "verdadeiro resposta_main_nulo"
    by (simp add: resposta_main_nulo_def)
  have f: "falta_campo resposta_main_nulo"
    by (simp add: falta_campo_def campos_obrigatorios_def resposta_main_nulo_def)
  show ?thesis
    using e b v f by (simp add: execucao_principal_def mundo_inicial_def)
qed

section \<open>Properties of the writer\<close>

text \<open>
  C4. Given a complete record, a run of the writer in which no driver call fails returns
  normally and appends exactly one row to the table: each of the ten columns, in the
  order of the \<^verbatim>\<open>INSERT\<close>, holds the record's value of that name. In every other
  run (a driver call fails, the record lacks a field, or the writer is given
  \<^verbatim>\<open>None\<close>) the table is left as it was.
\<close>

theorem salvar_insere_uma_linha:
  "(completo d \<and> \<not> falha_connect f \<and> \<not> falha_cursor f \<and> \<not> falha_execute f \<and> \<not> falha_commit f \<longrightarrow>
      fst (salvar_dados_no_bd f agora (Some d) w) = Retorna () \<and>
      tabela (snd (salvar_dados_no_bd f agora (Some d) w)) =
        tabela w @ [\<lparr>campos = map (\<lambda>c. (c, the (map_of d c))) colunas, data_insercao = agora\<rparr>]) \<and>
   (\<not> (completo d \<and> \<not> falha_connect f \<and> \<not> falha_cursor f \<and> \<not> falha_execute f \<and> \<not> falha_commit f) \<longrightarrow>
      tabela (snd (salvar_dados_no_bd f agora (Some d) w)) = tabela w) \<and>
   tabela (snd (salvar_dados_no_bd f agora None w)) = tabela w"
proof (intro conjI impI)
  assume "completo d \<and> \<not> falha_connect f \<and> \<not> falha_cursor f \<and> \<not> falha_execute f \<and> \<not> falha_commit f"
  then show "fst (salvar_dados_no_bd f agora (Some d) w) = Retorna ()"
    and "tabela (snd (salvar_dados_no_bd f agora (Some d) w)) =
        tabela w @ [\<lparr>campos = map (\<lambda>c. (c, the (map_of d c))) colunas, data_insercao = agora\<rparr>]"
    using salvar_sucesso by blast+
next
  assume n: "\<not> (completo d \<and> \<not> falha_connect f \<and> \<not> falha_cursor f \<and> \<not> falha_execute f \<and> \<not> falha_commit f)"
  show "tabela (snd (salvar_dados_no_bd f agora (Some d) w)) = tabela w"
  proof (cases "completo d")
    case True
    with n have "falha_connect f \<or> falha_cursor f \<or> falha_execute f \<or> falha_commit f" by blast
    with True show ?thesis by (rule salvar_falha(2))
  next
    case False
    then show ?thesis by (rule salvar_incompleto)
  qed
next
  show "tabela (snd (salvar_dados_no_bd f agora None w)) = tabela w"
    by (simp add: salvar_None)
qed

theorem salvar_insere_uma_linha_witness:
  "completo registro_completo \<and>
   fst (salvar_dados_no_bd sem_falhas 1700000100 (Some registro_completo) mundo_inicial) = Retorna () \<and>
   tabela (snd (salvar_dados_no_bd sem_falhas 1700000100 (Some registro_completo) mundo_inicial)) =
     [linha_completa] \<and>
   falha_execute falha_no_execute \<and>
   tabela (snd (salvar_dados_no_bd falha_no_execute 1700000100 (Some registro_completo) mundo_inicial)) = []"
  using salvar_insere_uma_linha [of registro_completo sem_falhas 1700000100 mundo_inicial]
        salvar_insere_uma_linha [of registro_completo falha_no_execute 1700000100 mundo_inicial]
        completo_registro
  by (simp add: sem_falhas_def falha_no_execute_def mundo_inicial_def linha_completa_def colunas_def
      registro_completo_def)

text \<open>
  C1. When a driver call fails while a complete record is written, the writer prints the
  error message, which a run without failure never prints: what the run printed tells its
  caller's log that the write was abandoned. The table is left as it was, the rollback is
  called exactly when the connection had been opened (a failed connect leaves nothing to
  roll back), and no driver call is made twice. The writer then returns, or, when the
  rollback itself fails, leaves with that exception.
\<close>

theorem salvar_erro_registrado:
  assumes "completo d"
      and "falha_connect f \<or> falha_cursor f \<or> falha_execute f \<or> falha_commit f"
  shows "saida (snd (salvar_dados_no_bd f agora (Some d) w)) = saida w @ [ErroSalvar] \<and>
         saida (snd (salvar_dados_no_bd f agora (Some d) w)) \<noteq>
           saida (snd (salvar_dados_no_bd sem_falhas agora (Some d) w)) \<and>
         fst (salvar_dados_no_bd f agora (Some d) w) =
           (if \<not> falha_connect f \<and> falha_rollback f then Levanta Psycopg2Error else Retorna ()) \<and>
         tabela (snd (salvar_dados_no_bd f agora (Some d) w)) = tabela w \<and>
         (\<exists>tr. ops (snd (salvar_dados_no_bd f agora (Some d) w)) = ops w @ tr \<and> distinct tr \<and>
               (Rollback \<in> set tr) = (\<not> falha_connect f))"
proof -
  have "\<exists>c. saida (snd (salvar_dados_no_bd sem_falhas agora (Some d) w)) =
             saida w @ [SalvoComSucesso c]"
    using assms(1) by (intro salvar_sucesso_saida) (simp_all add: sem_falhas_def)
  then have "saida w @ [ErroSalvar] \<noteq> saida (snd (salvar_dados_no_bd sem_falhas agora (Some d) w))"
    by auto
  with salvar_falha [OF assms] show ?thesis by simp
qed

theorem salvar_erro_registrado_witness:
  "completo registro_completo \<and> falha_execute falha_no_execute \<and>
   fst (salvar_dados_no_bd falha_no_execute 1700000100 (Some registro_completo) mundo_inicial) =
     Retorna () \<and>
   saida (snd (salvar_dados_no_bd falha_no_execute 1700000100 (Some registro_completo) mundo_inicial)) =
     [ErroSalvar] \<and>
   tabela (snd (salvar_dados_no_bd falha_no_execute 1700000100 (Some registro_completo) mundo_inicial)) =
     [] \<and>
   falha_execute falha_no_execute_e_rollback \<and>
   fst (salvar_dados_no_bd falha_no_execute_e_rollback 1700000100 (Some registro_completo)
          mundo_inicial) = Levanta Psycopg2Error \<and>
   saida (snd (salvar_dados_no_bd falha_no_execute_e_rollback 1700000100 (Some registro_completo)
                 mundo_inicial)) = [ErroSalvar]"
proof -
  have f: "falha_execute falha_no_execute" "falha_execute falha_no_execute_e_rollback"
    by (simp_all add: falha_no_execute_def falha_no_execute_e_rollback_def)
  then have g: "falha_connect falha_no_execute \<or> falha_cursor falha_no_execute \<or>
             falha_execute falha_no_execute \<or> falha_commit falha_no_execute"
    and h: "falha_connect falha_no_execute_e_rollback \<or> falha_cursor falha_no_execute_e_rollback \<or>
             falha_execute falha_no_execute_e_rollback \<or> falha_commit falha_no_execute_e_rollback"
    by simp_all
  from salvar_erro_registrado [OF completo_registro g, of 1700000100 mundo_inicial]
       salvar_erro_registrado [OF completo_registro h, of 1700000100 mundo_inicial]
       f completo_registro
  show ?thesis
    by (simp add: mundo_inicial_def falha_no_execute_def falha_no_execute_e_rollback_def
        sem_falhas_def)
qed

section \<open>Properties of the query service\<close>

text \<open>
  C5. When no driver call fails, \<^verbatim>\<open>GET /clima\<close> answers with status 200 and all
  the rows of the table, each once, ordered by \<open>data_insercao\<close> from the newest to the
  oldest; on the empty table the answer is status 200 with the empty list.
\<close>

theorem get_clima_todos_ordenado:
  assumes "sem_falha_leitura f"
  shows "\<exists>rs. fst (get_clima_todos f w) = Sucesso rs \<and>
              status_http (fst (get_clima_todos f w)) = 200 \<and>
              mset rs = mset (tabela w) \<and>
              sorted_wrt (\<lambda>a b. data_insercao b \<le> data_insercao a) rs \<and>
              fst (get_clima_todos f (w\<lparr>tabela := []\<rparr>)) = Sucesso []"
  using get_clima_todos_sem_falha [OF assms]
  by (simp add: ordenar_desc_mset ordenar_desc_sorted)

theorem get_clima_todos_ordenado_witness:
  "sem_falha_leitura sem_falhas \<and>
   fst (get_clima_todos sem_falhas mundo_duas_linhas) = Sucesso [linha_recife, linha_completa] \<and>
   fst (get_clima_todos sem_falhas mundo_inicial) = Sucesso []"
proof -
  have h: "sem_falha_leitura sem_falhas" by (simp add: sem_falha_leitura_def sem_falhas_def)
  from get_clima_todos_ordenado [OF h, of mundo_duas_linhas] 
  obtain rs where rs: "fst (get_clima_todos sem_falhas mundo_duas_linhas) = Sucesso rs"
    and vazio: "fst (get_clima_todos sem_falhas (mundo_duas_linhas\<lparr>tabela := []\<rparr>)) = Sucesso []"
    by blast
  have "fst (get_clima_todos sem_falhas mundo_duas_linhas) = Sucesso [linha_recife, linha_completa]"
    by (simp add: get_clima_todos_sem_falha [OF h] ordenar_desc_def mundo_duas_linhas_def
        linha_recife_def linha_completa_def)
  with h vazio show ?thesis by (simp add: mundo_duas_linhas_def mundo_inicial_def)
qed

text \<open>
  C6. \<^verbatim>\<open>GET /clima/{cidade}\<close> is meant to answer 404 whenever no stored row
  matches the city substring. For the string \<open>_\<close> and a table whose only row is the
  one of Florianopolis, no row contains the string, and the endpoint answers 200: the
  string reaches \<^verbatim>\<open>ILIKE\<close> unescaped and selects the row as a wildcard. The
  separation of 404 from 500 itself holds (\<open>status_por_cidade\<close>).
\<close>

theorem por_cidade_curinga_status_200:
  "status_http (fst (get_clima_por_cidade sem_falhas ''_'' mundo_uma_linha)) = 200 \<and>
   filter (cidade_contem ''_'') (tabela mundo_uma_linha) = []"
proof -
  have s: "sem_falha_leitura sem_falhas"
    by (simp add: sem_falha_leitura_def sem_falhas_def)
  have m: "filter (cidade_ilike (padrao_cidade ''_'')) (tabela mundo_uma_linha) = [linha_completa]"
    by (simp add: mundo_uma_linha_def mundo_inicial_def linha_completa_def
        registro_completo_def cidade_ilike_def ilike_def padrao_cidade_def minuscula_def)
  have n: "filter (cidade_contem ''_'') (tabela mundo_uma_linha) = []"
    by (simp add: mundo_uma_linha_def mundo_inicial_def cidade_contem_def linha_completa_def
        registro_completo_def minuscula_def sublist_Cons_right)
  show ?thesis
    using m n by (simp add: get_clima_por_cidade_sem_falha [OF s])
qed

text \<open>
  C3. \<^verbatim>\<open>GET /clima/{cidade}\<close> is meant to return the rows whose city contains the
  given string, and no other row. The string is put into the \<^verbatim>\<open>ILIKE\<close> pattern
  as it comes, so its wildcard characters act as wildcards: for \<open>_\<close> the endpoint
  returns the row of Florianopolis, whose city contains no underscore.
\<close>

theorem por_cidade_curinga_devolve_tudo:
  "fst (get_clima_por_cidade sem_falhas ''_'' mundo_uma_linha) = Sucesso [linha_completa] \<and>
   map_of (campos linha_completa) ''cidade'' = Some (JStr ''Florianopolis'') \<and>
   \<not> cidade_contem ''_'' linha_completa"
proof -
  have s: "sem_falha_leitura sem_falhas"
    by (simp add: sem_falha_leitura_def sem_falhas_def)
  have m: "filter (cidade_ilike (padrao_cidade ''_'')) (tabela mundo_uma_linha) = [linha_completa]"
    by (simp add: mundo_uma_linha_def mundo_inicial_def linha_completa_def
        registro_completo_def cidade_ilike_def ilike_def padrao_cidade_def minuscula_def)
  have o: "ordenar_desc [linha_completa] = [linha_completa]"
    by (simp add: ordenar_desc_def)
  have n: "\<not> cidade_contem ''_'' linha_completa"
    by (simp add: cidade_contem_def linha_completa_def registro_completo_def minuscula_def
        sublist_Cons_right)
  show ?thesis
    using m o n by (simp add: get_clima_por_cidade_sem_falha [OF s])
       (simp add: linha_completa_def registro_completo_def)
qed

section \<open>Connections\<close>

text \<open>
  C9. The writer and both endpoints leave as many connections open as they found, on
  every path and for every input: whenever the connection was opened, the last call made
  to the driver is the one that closes it, and when it could not be opened the failed
  attempt is the last call.
\<close>

theorem conexoes_sempre_fechadas:
  "abertas (snd (salvar_dados_no_bd f agora dados w)) = abertas w \<and>
   abertas (snd (get_clima_todos f w)) = abertas w \<and>
   abertas (snd (get_clima_por_cidade f cidade w)) = abertas w \<and>
   last (ops (snd (salvar_dados_no_bd f agora (Some d) w))) =
     (if falha_connect f then Conectar else FecharConexao) \<and>
   last (ops (snd (get_clima_todos f w))) =
     (if falha_connect f then Conectar else FecharConexao) \<and>
   last (ops (snd (get_clima_por_cidade f cidade w))) =
     (if falha_connect f then Conectar else FecharConexao)"
proof (intro conjI)
  show "abertas (snd (salvar_dados_no_bd f agora dados w)) = abertas w"
    by (simp add: salvar_dados_no_bd_def tratar_erro_def Let_def chamadas_bd
        split: option.splits sum.splits)
  show "abertas (snd (get_clima_todos f w)) = abertas w"
    by (simp add: get_clima_todos_def get_db_connection_def finalizar_def Let_def chamadas_bd)
  show "abertas (snd (get_clima_por_cidade f cidade w)) = abertas w"
    by (simp add: get_clima_por_cidade_def get_db_connection_def finalizar_def Let_def chamadas_bd)
  show "last (ops (snd (salvar_dados_no_bd f agora (Some d) w))) =
     (if falha_connect f then Conectar else FecharConexao)"
    by (simp add: salvar_dados_no_bd_def tratar_erro_def Let_def chamadas_bd split: sum.splits)
  show "last (ops (snd (get_clima_todos f w))) =
     (if falha_connect f then Conectar else FecharConexao)"
    by (simp add: get_clima_todos_def get_db_connection_def finalizar_def Let_def chamadas_bd)
  show "last (ops (snd (get_clima_por_cidade f cidade w))) =
     (if falha_connect f then Conectar else FecharConexao)"
    by (simp add: get_clima_por_cidade_def get_db_connection_def finalizar_def Let_def chamadas_bd)
qed

end
